theory Spec2Isabelle
  imports Complex_Main "HOL-Library.AList" "HOL-Library.Word"
begin

section \<open>Data model (types/index.ts)\<close>

text \<open>
  The TypeScript \<open>any\<close> of metadata values, tool-call arguments and tool results is the
  type variable \<open>'v\<close>: the agent threads such values through and never inspects them.
  A \<open>Date\<close> is its \<open>getTime()\<close> value, an integer number of milliseconds; other
  \<open>number\<close>s are exact rationals (the rounding of IEEE doubles is not modelled).
  An optional field \<open>f?: T\<close> is a \<open>T option\<close>, \<open>None\<close> standing for \<open>undefined\<close>.
  A \<open>Record<string, any>\<close> is an association list in insertion order.
  Field names are the source's; where two interfaces share a field name the record's
  name is put in front.
\<close>

datatype SessionStatus = IDLE | CONNECTING | ACTIVE | PAUSED | ENDING | ENDED | ERROR

record Endpointing =
  enabled :: bool
  silenceThreshold :: "rat option"
  endThreshold :: "rat option"

record 'v SessionConfig =
  config_id :: "string option"
  language :: "string option"
  sampleRate :: "rat option"
  encoding :: "string option"
  interruptible :: "bool option"
  endpointing :: "Endpointing option"
  config_metadata :: "(string \<times> 'v) list option"

record 'v VoiceSession =
  session_id :: string
  status :: SessionStatus
  config :: "'v SessionConfig"
  startedAt :: int
  endedAt :: "int option"
  duration :: "rat option"
  metadata :: "(string \<times> 'v) list"

record TranscriptWord =
  word :: string
  word_start :: rat
  word_end :: rat
  word_confidence :: rat

record Transcript =
  transcript_text :: string
  confidence :: rat
  isFinal :: bool
  words :: "TranscriptWord list option"
  transcript_language :: "string option"
  timestamp :: rat
  transcript_duration :: "rat option"

record AudioChunk =
  chunk_data :: "8 word list"
  chunk_timestamp :: rat
  sequenceNumber :: "rat option"
  chunk_isFinal :: "bool option"

datatype Role = RoleSystem | RoleUser | RoleAssistant | RoleTool

record ChatMessage =
  role :: Role
  content :: string
  name :: "string option"
  toolCallId :: "string option"

record 'v ToolParameters =
  properties :: "(string \<times> 'v) list"
  required :: "string list option"

record 'v Tool =
  tool_name :: string
  description :: string
  parameters :: "'v ToolParameters"

record 'v ToolCall =
  call_id :: string
  call_name :: string
  arguments :: "(string \<times> 'v) list"

datatype ToolChoice = ChoiceAuto | ChoiceRequired | ChoiceNone | ChoiceNamed string

record 'v LLMRequest =
  messages :: "ChatMessage list"
  request_systemPrompt :: "string option"
  temperature :: "rat option"
  maxTokens :: "rat option"
  tools :: "'v Tool list option"
  toolChoice :: "ToolChoice option"
  stream :: "bool option"

record Usage =
  promptTokens :: rat
  completionTokens :: rat
  totalTokens :: rat

datatype FinishReason = FinishStop | FinishLength | FinishToolCalls | FinishContentFilter

text \<open>The \<open>role\<close> of an \<open>LLMResponse\<close> has the one value \<open>'assistant'\<close> and is left out.\<close>

record 'v LLMResponse =
  response_text :: string
  toolCalls :: "'v ToolCall list option"
  usage :: "Usage option"
  finishReason :: "FinishReason option"

datatype 'v VoiceAgentEvent =
    SessionStart "'v VoiceSession"
  | SessionEnd "'v VoiceSession"
  | AudioInput AudioChunk
  | AudioOutput AudioChunk
  | TranscriptPartial Transcript
  | TranscriptFinal Transcript
  | LlmStart "'v LLMRequest"
  | LlmResponse "'v LLMResponse"
  | LlmStream string
  | ToolCallEvent "'v ToolCall"
  | ToolResultEvent "'v ToolCall" 'v
  | ErrorEvent string

text \<open>The \<open>type\<close> tag of an event.\<close>

fun event_type :: "'v VoiceAgentEvent \<Rightarrow> string" where
  "event_type (SessionStart s) = ''session:start''"
| "event_type (SessionEnd s) = ''session:end''"
| "event_type (AudioInput c) = ''audio:input''"
| "event_type (AudioOutput c) = ''audio:output''"
| "event_type (TranscriptPartial t) = ''transcript:partial''"
| "event_type (TranscriptFinal t) = ''transcript:final''"
| "event_type (LlmStart r) = ''llm:start''"
| "event_type (LlmResponse r) = ''llm:response''"
| "event_type (LlmStream c) = ''llm:stream''"
| "event_type (ToolCallEvent c) = ''tool:call''"
| "event_type (ToolResultEvent c r) = ''tool:result''"
| "event_type (ErrorEvent e) = ''error''"

text \<open>
  The errors the orchestration code throws: \<open>VoiceAgentError\<close> with code
  \<open>SESSION_NOT_FOUND\<close> (VoiceAgent), \<open>SessionError\<close> with code \<open>SESSION_ERROR\<close>
  (SessionManager), each carrying the session id, and \<open>Thrown\<close> for whatever a
  backend call rejected with or a builtin threw, carrying its cause.
\<close>

datatype error = SESSION_NOT_FOUND string | SESSION_ERROR string | Thrown string

section \<open>SessionManager (session/SessionManager.ts)\<close>

text \<open>
  \<open>sessions\<close> is a JavaScript \<open>Map<string, VoiceSession>\<close>: an association list in
  insertion order whose keys are distinct. \<open>Map.set\<close> is \<open>AList.update\<close> (replace in
  place, or append), \<open>Map.get\<close> is \<open>map_of\<close>, \<open>Map.delete\<close> is \<open>AList.delete\<close>.
  A session object is reachable from the map under its own key only, so the in-place
  mutation of a looked-up session is a write back under that key.
  \<open>new Date()\<close> and \<open>Date.now()\<close> read the clock: every operation that does takes
  the reading as its argument \<open>now\<close>; \<open>randomUUID()\<close> is the argument \<open>uuid\<close>.
\<close>

record 'v SessionManager =
  sessions :: "(string \<times> 'v VoiceSession) list"

definition new_SessionManager :: "'v SessionManager" where
  "new_SessionManager = \<lparr>sessions = []\<rparr>"

text \<open>
  \<open>config.id || randomUUID()\<close>: an absent id and the empty string are both falsy.
  \<open>config.metadata || {}\<close>: an object is truthy, only an absent one is replaced.
  The function has no failing branch.
\<close>

definition createSession ::
  "'v SessionConfig \<Rightarrow> string \<Rightarrow> int \<Rightarrow> 'v SessionManager \<Rightarrow> 'v VoiceSession \<times> 'v SessionManager" where
  "createSession cfg uuid now sm =
     (let session =
        \<lparr>session_id = (case config_id cfg of
                          Some i \<Rightarrow> if i = [] then uuid else i
                        | None \<Rightarrow> uuid),
         status = IDLE,
         config = cfg,
         startedAt = now,
         endedAt = None,
         duration = None,
         metadata = (case config_metadata cfg of Some m \<Rightarrow> m | None \<Rightarrow> [])\<rparr>
      in (session, sm\<lparr>sessions := AList.update (session_id session) session (sessions sm)\<rparr>))"

definition getSession :: "string \<Rightarrow> 'v SessionManager \<Rightarrow> 'v VoiceSession option" where
  "getSession i sm = map_of (sessions sm) i"

text \<open>
  The two assignments \<open>updateSessionStatus\<close> makes to the session object it looked up.
\<close>

definition set_status :: "SessionStatus \<Rightarrow> int \<Rightarrow> 'v VoiceSession \<Rightarrow> 'v VoiceSession" where
  "set_status st now session =
     (let session1 = session\<lparr>status := st\<rparr>
      in if st = ENDED
         then session1\<lparr>endedAt := Some now,
                       duration := Some (of_int (now - startedAt session1) / 1000)\<rparr>
         else session1)"

definition updateSessionStatus ::
  "string \<Rightarrow> SessionStatus \<Rightarrow> int \<Rightarrow> 'v SessionManager \<Rightarrow> error + 'v SessionManager" where
  "updateSessionStatus i st now sm =
     (case getSession i sm of
        None \<Rightarrow> Inl (SESSION_ERROR i)
      | Some session \<Rightarrow>
          Inr (sm\<lparr>sessions := AList.update i (set_status st now session) (sessions sm)\<rparr>))"

definition endSession :: "string \<Rightarrow> int \<Rightarrow> 'v SessionManager \<Rightarrow> error + 'v SessionManager" where
  "endSession i now sm =
     (case getSession i sm of
        None \<Rightarrow> Inl (SESSION_ERROR i)
      | Some session \<Rightarrow> updateSessionStatus i ENDED now sm)"

definition deleteSession :: "string \<Rightarrow> 'v SessionManager \<Rightarrow> bool \<times> 'v SessionManager" where
  "deleteSession i sm =
     (map_of (sessions sm) i \<noteq> None, sm\<lparr>sessions := AList.delete i (sessions sm)\<rparr>)"

text \<open>
  The test of the sweep's \<open>if\<close>: \<open>session.endedAt\<close> is a \<open>Date\<close> object, truthy
  whenever it is there.
\<close>

definition expired :: "int \<Rightarrow> int \<Rightarrow> 'v VoiceSession \<Rightarrow> bool" where
  "expired now maxAgeMs session =
     (status session = ENDED \<and>
      (case endedAt session of None \<Rightarrow> False | Some e \<Rightarrow> now - e > maxAgeMs))"

text \<open>
  The \<open>for ... of this.sessions.entries()\<close> loop. Deleting the entry under the cursor
  does not disturb the iteration of a \<open>Map\<close>, so the loop visits the entries the map
  had when it started; the map and the counter are the loop's state.
\<close>

fun cleanup_loop ::
  "int \<Rightarrow> int \<Rightarrow> (string \<times> 'v VoiceSession) list \<Rightarrow>
   (string \<times> 'v VoiceSession) list \<times> nat \<Rightarrow> (string \<times> 'v VoiceSession) list \<times> nat" where
  "cleanup_loop now maxAgeMs [] (m, cleaned) = (m, cleaned)"
| "cleanup_loop now maxAgeMs ((i, session) # rest) (m, cleaned) =
     (if expired now maxAgeMs session
      then cleanup_loop now maxAgeMs rest (AList.delete i m, cleaned + 1)
      else cleanup_loop now maxAgeMs rest (m, cleaned))"

definition cleanupOldSessions :: "int \<Rightarrow> int \<Rightarrow> 'v SessionManager \<Rightarrow> nat \<times> 'v SessionManager" where
  "cleanupOldSessions maxAgeMs now sm =
     (case cleanup_loop now maxAgeMs (sessions sm) (sessions sm, 0) of
        (m, cleaned) \<Rightarrow> (cleaned, sm\<lparr>sessions := m\<rparr>))"

section \<open>VoiceAgent (VoiceAgent.ts)\<close>

text \<open>
  \<open>conversationHistory\<close> is a \<open>Map<string, ChatMessage[]>\<close> whose values are
  references to mutable arrays: \<open>history.push\<close> on an array that is in the map is seen
  through the map at once, a push on a fresh \<open>[]\<close> only after \<open>conversationHistory.set\<close>.
  The arrays therefore live in a store, \<open>arrays\<close>, from addresses to contents, with
  \<open>next_array\<close> the next unused address, and the map holds addresses.

  The two providers are the fields \<open>speechProvider\<close> and \<open>llmProvider\<close>, each
  reduced to the one method the agent calls (\<open>transcribe\<close>, \<open>complete\<close>): a function
  to either the cause the returned promise rejected with (\<open>Inl\<close>) or its value.
  The constructor's provider factories are stubs that throw, so the providers are taken
  as given.

  The inherited \<open>EventEmitter\<close> is the log \<open>emitted\<close> of deliveries, each a channel
  name and the event delivered on it. Listeners are observers of that log: a listener
  that throws or calls back into the agent is outside the model.
  An operation returns its outcome together with the agent's state, also when it throws,
  since what it did before throwing stays done.
\<close>

record 'v VoiceAgent =
  speechProvider :: "8 word list \<Rightarrow> 'v SessionConfig \<Rightarrow> string + Transcript"
  llmProvider :: "'v LLMRequest \<Rightarrow> string + 'v LLMResponse"
  sessionManager :: "'v SessionManager"
  systemPrompt :: string
  conversationHistory :: "(string \<times> nat) list"
  arrays :: "nat \<Rightarrow> ChatMessage list"
  next_array :: nat
  emitted :: "(string \<times> 'v VoiceAgentEvent) list"

record 'v TurnResult =
  transcript :: Transcript
  response :: string
  result_toolCalls :: "'v ToolCall list option"

definition new_VoiceAgent ::
  "(8 word list \<Rightarrow> 'v SessionConfig \<Rightarrow> string + Transcript) \<Rightarrow>
   ('v LLMRequest \<Rightarrow> string + 'v LLMResponse) \<Rightarrow> string \<Rightarrow> 'v VoiceAgent" where
  "new_VoiceAgent speech llm prompt =
     \<lparr>speechProvider = speech, llmProvider = llm, sessionManager = new_SessionManager,
      systemPrompt = prompt, conversationHistory = [], arrays = (\<lambda>p. []), next_array = 0,
      emitted = []\<rparr>"

text \<open>\<open>this.emit('event', event); this.emit(event.type, event)\<close>\<close>

definition emitEvent :: "'v VoiceAgentEvent \<Rightarrow> 'v VoiceAgent \<Rightarrow> 'v VoiceAgent" where
  "emitEvent event a = a\<lparr>emitted := emitted a @ [(''event'', event), (event_type event, event)]\<rparr>"

text \<open>The array literal \<open>[]\<close>: a new empty array at an unused address.\<close>

definition new_array :: "'v VoiceAgent \<Rightarrow> nat \<times> 'v VoiceAgent" where
  "new_array a =
     (next_array a, a\<lparr>arrays := (arrays a)(next_array a := []), next_array := Suc (next_array a)\<rparr>)"

text \<open>\<open>this.conversationHistory.get(sessionId) || []\<close>: an array, even an empty one, is truthy.\<close>

definition history_or_new :: "string \<Rightarrow> 'v VoiceAgent \<Rightarrow> nat \<times> 'v VoiceAgent" where
  "history_or_new sessionId a =
     (case map_of (conversationHistory a) sessionId of
        Some p \<Rightarrow> (p, a)
      | None \<Rightarrow> new_array a)"

definition push :: "nat \<Rightarrow> ChatMessage \<Rightarrow> 'v VoiceAgent \<Rightarrow> 'v VoiceAgent" where
  "push p m a = a\<lparr>arrays := (arrays a)(p := arrays a p @ [m])\<rparr>"

definition getConversationHistory :: "string \<Rightarrow> 'v VoiceAgent \<Rightarrow> ChatMessage list" where
  "getConversationHistory sessionId a =
     (case map_of (conversationHistory a) sessionId of
        Some p \<Rightarrow> arrays a p
      | None \<Rightarrow> [])"

definition agent_getSession :: "string \<Rightarrow> 'v VoiceAgent \<Rightarrow> 'v VoiceSession option" where
  "agent_getSession sessionId a = getSession sessionId (sessionManager a)"

text \<open>
  \<open>startSession\<close> returns the session object, which \<open>updateSessionStatus\<close> has
  mutated by then; the \<open>session:start\<close> event is delivered before that.
\<close>

definition startSession ::
  "'v SessionConfig \<Rightarrow> string \<Rightarrow> int \<Rightarrow> 'v VoiceAgent \<Rightarrow> (error + 'v VoiceSession) \<times> 'v VoiceAgent" where
  "startSession cfg uuid now a =
     (case createSession cfg uuid now (sessionManager a) of
        (session, sm1) \<Rightarrow>
          (case new_array (a\<lparr>sessionManager := sm1\<rparr>) of
             (p, a1) \<Rightarrow>
               (let a2 = a1\<lparr>conversationHistory :=
                              AList.update (session_id session) p (conversationHistory a1)\<rparr>;
                    a3 = emitEvent (SessionStart session) a2
                in case updateSessionStatus (session_id session) ACTIVE now (sessionManager a3) of
                     Inl e \<Rightarrow> (Inl e, a3)
                   | Inr sm2 \<Rightarrow>
                       (Inr (set_status ACTIVE now session), a3\<lparr>sessionManager := sm2\<rparr>))))"

definition user_message :: "Transcript \<Rightarrow> ChatMessage" where
  "user_message t = \<lparr>role = RoleUser, content = transcript_text t, name = None, toolCallId = None\<rparr>"

definition assistant_message :: "'v LLMResponse \<Rightarrow> ChatMessage" where
  "assistant_message r =
     \<lparr>role = RoleAssistant, content = response_text r, name = None, toolCallId = None\<rparr>"

definition tool_message :: "'v ToolCall \<Rightarrow> string \<Rightarrow> ChatMessage" where
  "tool_message toolCall s =
     \<lparr>role = RoleTool, content = s, name = Some (call_name toolCall),
      toolCallId = Some (call_id toolCall)\<rparr>"

text \<open>
  The request \<open>processAudio\<close> builds, \<open>{messages: history, systemPrompt, stream: false}\<close>,
  with the contents the array has when the request is handed over.
\<close>

definition turn_request :: "ChatMessage list \<Rightarrow> string \<Rightarrow> 'v LLMRequest" where
  "turn_request history prompt =
     \<lparr>messages = history, request_systemPrompt = Some prompt, temperature = None,
      maxTokens = None, tools = None, toolChoice = None, stream = Some False\<rparr>"

text \<open>The request \<open>sendToolResult\<close> builds, \<open>{messages: history, systemPrompt}\<close>.\<close>

definition tool_request :: "ChatMessage list \<Rightarrow> string \<Rightarrow> 'v LLMRequest" where
  "tool_request history prompt =
     \<lparr>messages = history, request_systemPrompt = Some prompt, temperature = None,
      maxTokens = None, tools = None, toolChoice = None, stream = None\<rparr>"

definition audio_event :: "8 word list \<Rightarrow> int \<Rightarrow> 'v VoiceAgentEvent" where
  "audio_event audio now =
     AudioInput \<lparr>chunk_data = audio, chunk_timestamp = of_int now, sequenceNumber = None,
                 chunk_isFinal = None\<rparr>"

definition processAudio ::
  "string \<Rightarrow> 8 word list \<Rightarrow> int \<Rightarrow> 'v VoiceAgent \<Rightarrow> (error + 'v TurnResult) \<times> 'v VoiceAgent" where
  "processAudio sessionId audio now a =
     (case getSession sessionId (sessionManager a) of
        None \<Rightarrow> (Inl (SESSION_NOT_FOUND sessionId), a)
      | Some session \<Rightarrow>
          (let a1 = emitEvent (audio_event audio now) a
           in case speechProvider a1 audio (config session) of
                Inl cause \<Rightarrow> (Inl (Thrown cause), a1)
              | Inr t \<Rightarrow>
                  (let a2 = emitEvent (TranscriptFinal t) a1
                   in case history_or_new sessionId a2 of
                        (history, a3) \<Rightarrow>
                          (let a4 = push history (user_message t) a3;
                               llmRequest = turn_request (arrays a4 history) (systemPrompt a4);
                               a5 = emitEvent (LlmStart llmRequest) a4
                           in case llmProvider a5 llmRequest of
                                Inl cause \<Rightarrow> (Inl (Thrown cause), a5)
                              | Inr llmResponse \<Rightarrow>
                                  (let a6 = emitEvent (LlmResponse llmResponse) a5;
                                       a7 = push history (assistant_message llmResponse) a6;
                                       a8 = a7\<lparr>conversationHistory :=
                                                  AList.update sessionId history
                                                    (conversationHistory a7)\<rparr>;
                                       a9 = (case toolCalls llmResponse of
                                               None \<Rightarrow> a8
                                             | Some calls \<Rightarrow>
                                                 fold (\<lambda>toolCall. emitEvent (ToolCallEvent toolCall))
                                                   calls a8)
                                   in (Inr \<lparr>transcript = t,
                                            response = response_text llmResponse,
                                            result_toolCalls = toolCalls llmResponse\<rparr>,
                                       a9))))))"

text \<open>
  \<open>JSON.stringify\<close> is the argument \<open>stringify\<close>: its string, or the cause it threw
  with (a cyclic value, a BigInt).
\<close>

definition sendToolResult ::
  "string \<Rightarrow> 'v ToolCall \<Rightarrow> 'v \<Rightarrow> ('v \<Rightarrow> string + string) \<Rightarrow> 'v VoiceAgent \<Rightarrow>
   (error + string) \<times> 'v VoiceAgent" where
  "sendToolResult sessionId toolCall result stringify a =
     (case history_or_new sessionId a of
        (history, a1) \<Rightarrow>
          (case stringify result of
             Inl cause \<Rightarrow> (Inl (Thrown cause), a1)
           | Inr s \<Rightarrow>
               (let a2 = push history (tool_message toolCall s) a1;
                    llmRequest = tool_request (arrays a2 history) (systemPrompt a2)
                in case llmProvider a2 llmRequest of
                     Inl cause \<Rightarrow> (Inl (Thrown cause), a2)
                   | Inr llmResponse \<Rightarrow>
                       (let a3 = push history (assistant_message llmResponse) a2;
                            a4 = a3\<lparr>conversationHistory :=
                                       AList.update sessionId history (conversationHistory a3)\<rparr>;
                            a5 = emitEvent (ToolResultEvent toolCall result) a4
                        in (Inr (response_text llmResponse), a5)))))"

text \<open>
  \<open>endSession\<close> of the agent. The \<open>session:end\<close> event carries the session object
  as the manager's \<open>endSession\<close> has left it.
\<close>

definition agent_endSession ::
  "string \<Rightarrow> int \<Rightarrow> 'v VoiceAgent \<Rightarrow> (error + unit) \<times> 'v VoiceAgent" where
  "agent_endSession sessionId now a =
     (case getSession sessionId (sessionManager a) of
        None \<Rightarrow> (Inl (SESSION_NOT_FOUND sessionId), a)
      | Some session \<Rightarrow>
          (case endSession sessionId now (sessionManager a) of
             Inl e \<Rightarrow> (Inl e, a)
           | Inr sm \<Rightarrow>
               (let a1 = a\<lparr>sessionManager := sm\<rparr>;
                    a2 = a1\<lparr>conversationHistory :=
                               AList.delete sessionId (conversationHistory a1)\<rparr>;
                    a3 = emitEvent (SessionEnd (set_status ENDED now session)) a2
                in (Inr (), a3))))"

section \<open>Sequences of SessionManager operations\<close>

text \<open>
  The states a session manager can reach: those \<open>run_ops\<close> produces from the empty
  manager by any list of calls of its mutating methods \<open>createSession\<close>,
  \<open>updateSessionStatus\<close>, \<open>endSession\<close>, \<open>deleteSession\<close> and
  \<open>cleanupOldSessions\<close>. A call that throws has changed nothing.
\<close>

datatype 'v StoreOp =
    Create "'v SessionConfig" string int
  | Transition string SessionStatus int
  | End string int
  | Delete string
  | Sweep int int

fun apply_op :: "'v StoreOp \<Rightarrow> 'v SessionManager \<Rightarrow> 'v SessionManager" where
  "apply_op (Create cfg uuid now) sm = snd (createSession cfg uuid now sm)"
| "apply_op (Transition i st now) sm =
     (case updateSessionStatus i st now sm of Inl e \<Rightarrow> sm | Inr sm' \<Rightarrow> sm')"
| "apply_op (End i now) sm =
     (case endSession i now sm of Inl e \<Rightarrow> sm | Inr sm' \<Rightarrow> sm')"
| "apply_op (Delete i) sm = snd (deleteSession i sm)"
| "apply_op (Sweep maxAgeMs now) sm = snd (cleanupOldSessions maxAgeMs now sm)"

definition run_ops :: "'v StoreOp list \<Rightarrow> 'v SessionManager" where
  "run_ops ops = fold apply_op ops new_SessionManager"

text \<open>The property of one session that the duration invariant is about.\<close>

definition duration_ok :: "'v VoiceSession \<Rightarrow> bool" where
  "duration_ok s \<longleftrightarrow>
     (status s = ENDED \<longrightarrow> duration s \<noteq> None) \<and>
     (case duration s of
        None \<Rightarrow> True
      | Some d \<Rightarrow> (case endedAt s of None \<Rightarrow> False | Some e \<Rightarrow> d = of_int (e - startedAt s) / 1000))"

section \<open>Observing the event log\<close>

text \<open>
  What the listeners registered on one channel have received, in order. The listeners
  added through \<open>onEvent\<close> are those of the channel \<open>'event'\<close>.
\<close>

definition delivered :: "string \<Rightarrow> 'v VoiceAgent \<Rightarrow> 'v VoiceAgentEvent list" where
  "delivered channel a = map snd (filter (\<lambda>d. fst d = channel) (emitted a))"

section \<open>Example inputs\<close>

definition ex_config :: "string \<Rightarrow> string SessionConfig" where
  "ex_config i =
     \<lparr>config_id = Some i, language = None, sampleRate = None, encoding = None,
      interruptible = None, endpointing = None, config_metadata = None\<rparr>"

definition ex_session ::
  "string \<Rightarrow> SessionStatus \<Rightarrow> int \<Rightarrow> int option \<Rightarrow> rat option \<Rightarrow> string VoiceSession" where
  "ex_session i st t0 e d =
     \<lparr>session_id = i, status = st, config = ex_config i, startedAt = t0, endedAt = e,
      duration = d, metadata = []\<rparr>"

text \<open>A session manager holding the given sessions, each under its own id.\<close>

definition ex_store :: "string VoiceSession list \<Rightarrow> string SessionManager" where
  "ex_store ss = \<lparr>sessions = map (\<lambda>s. (session_id s, s)) ss\<rparr>"

definition ex_transcript :: Transcript where
  "ex_transcript =
     \<lparr>transcript_text = ''hours?'', confidence = 95 / 100, isFinal = True, words = None,
      transcript_language = None, timestamp = 0, transcript_duration = None\<rparr>"

definition ex_calls :: "string ToolCall list" where
  "ex_calls =
     [\<lparr>call_id = ''c1'', call_name = ''lookup'', arguments = []\<rparr>,
      \<lparr>call_id = ''c2'', call_name = ''book'', arguments = [(''day'', ''Mon'')]\<rparr>]"

definition ex_response :: "string ToolCall list option \<Rightarrow> string LLMResponse" where
  "ex_response calls =
     \<lparr>response_text = ''9-5 Mon-Fri'', toolCalls = calls, usage = None, finishReason = None\<rparr>"

text \<open>
  An agent whose providers answer every call alike, after \<open>startSession({id: 's1'})\<close>
  at time 0, and the same agent after \<open>endSession('s1')\<close> at time 1000.
\<close>

definition ex_agent :: "string + Transcript \<Rightarrow> string + string LLMResponse \<Rightarrow> string VoiceAgent" where
  "ex_agent speech llm = new_VoiceAgent (\<lambda>audio cfg. speech) (\<lambda>request. llm) ''Be brief.''"

definition ex_started :: "string + Transcript \<Rightarrow> string + string LLMResponse \<Rightarrow> string VoiceAgent" where
  "ex_started speech llm = snd (startSession (ex_config ''s1'') ''uuid'' 0 (ex_agent speech llm))"

definition ex_ended :: "string + Transcript \<Rightarrow> string + string LLMResponse \<Rightarrow> string VoiceAgent" where
  "ex_ended speech llm = snd (agent_endSession ''s1'' 1000 (ex_started speech llm))"

section \<open>Auxiliary facts\<close>

lemma cleanup_loop_filter:
  "cleanup_loop now maxAgeMs es (m, c) =
     (filter (\<lambda>p. fst p \<notin> fst ` set (filter (\<lambda>q. expired now maxAgeMs (snd q)) es)) m,
      c + length (filter (\<lambda>q. expired now maxAgeMs (snd q)) es))"
proof (induction es arbitrary: m c)
  case Nil
  then show ?case by simp
next
  case (Cons e es)
  obtain i s where e: "e = (i, s)" by (cases e)
  show ?case
    unfolding e by (simp add: Cons.IH AList.delete_eq) (auto intro: filter_cong)
qed

lemma filter_expired_keys:
  assumes "distinct (map fst es)"
  shows "filter (\<lambda>p. fst p \<notin> fst ` set (filter (\<lambda>q. P (snd q)) es)) es = filter (\<lambda>q. \<not> P (snd q)) es"
proof (rule filter_cong[OF refl])
  fix p assume p: "p \<in> set es"
  have "fst p \<in> fst ` set (filter (\<lambda>q. P (snd q)) es) \<longleftrightarrow> P (snd p)"
  proof
    assume "fst p \<in> fst ` set (filter (\<lambda>q. P (snd q)) es)"
    then obtain q where q: "q \<in> set es" "P (snd q)" "fst q = fst p" by auto
    from assms p q(1) q(3) have "q = p"
      by (metis eq_key_imp_eq_value prod.collapse)
    with q(2) show "P (snd p)" by simp
  next
    assume "P (snd p)"
    with p show "fst p \<in> fst ` set (filter (\<lambda>q. P (snd q)) es)" by force
  qed
  then show "(fst p \<notin> fst ` set (filter (\<lambda>q. P (snd q)) es)) = (\<not> P (snd p))" by simp
qed

lemma cleanupOldSessions_filter:
  assumes "distinct (map fst (sessions sm))"
  shows "cleanupOldSessions maxAgeMs now sm =
     (length (filter (\<lambda>q. expired now maxAgeMs (snd q)) (sessions sm)),
      sm\<lparr>sessions := filter (\<lambda>q. \<not> expired now maxAgeMs (snd q)) (sessions sm)\<rparr>)"
  using filter_expired_keys[OF assms, of "expired now maxAgeMs"]
  by (simp add: cleanupOldSessions_def cleanup_loop_filter)

lemma map_of_filter_snd:
  "distinct (map fst es) \<Longrightarrow>
   map_of (filter (\<lambda>q. Q (snd q)) es) i =
     (case map_of es i of None \<Rightarrow> None | Some s \<Rightarrow> if Q s then Some s else None)"
proof (induction es)
  case Nil
  then show ?case by simp
next
  case (Cons e es)
  obtain k v where e: "e = (k, v)" by (cases e)
  from Cons.prems have k: "k \<notin> fst ` set es" and d: "distinct (map fst es)"
    by (auto simp: e)
  from k have "map_of (filter (\<lambda>q. Q (snd q)) es) k = None"
    by (auto simp: map_of_eq_None_iff)
  with Cons.IH[OF d] show ?case
    by (simp add: e)
qed

lemma card_expired_keys:
  assumes "distinct (map fst es)"
  shows "card {i. \<exists>s. map_of es i = Some s \<and> P s} = length (filter (\<lambda>q. P (snd q)) es)"
proof -
  have "{i. \<exists>s. map_of es i = Some s \<and> P s} = set (map fst (filter (\<lambda>q. P (snd q)) es))"
    using assms by (force simp: image_iff dest: map_of_SomeD)
  moreover have "distinct (map fst (filter (\<lambda>q. P (snd q)) es))"
    using assms by (rule distinct_map_filter)
  ultimately show ?thesis
    by (simp add: distinct_card del: set_map map_eq_conv)
qed

text \<open>The keys of the session map stay distinct, as those of a \<open>Map\<close> are.\<close>

lemma apply_op_distinct:
  assumes "distinct (map fst (sessions sm))"
  shows "distinct (map fst (sessions (apply_op x sm)))"
proof (cases x)
  case (Create cfg uuid now)
  then show ?thesis
    using assms by (simp add: createSession_def Let_def AList.distinct_update)
next
  case (Transition i st now)
  then show ?thesis
    using assms
    by (simp add: updateSessionStatus_def AList.distinct_update split: option.splits)
next
  case (End i now)
  then show ?thesis
    using assms
    by (simp add: endSession_def updateSessionStatus_def AList.distinct_update
        split: option.splits)
next
  case (Delete i)
  then show ?thesis
    using assms by (simp add: deleteSession_def AList.distinct_delete)
next
  case (Sweep maxAgeMs now)
  then show ?thesis
    using assms by (simp add: cleanupOldSessions_def cleanup_loop_filter distinct_map_filter)
qed

lemma run_ops_distinct: "distinct (map fst (sessions (run_ops ops)))"
proof -
  have "distinct (map fst (sessions sm)) \<Longrightarrow> distinct (map fst (sessions (fold apply_op ops sm)))"
    for sm :: "'a SessionManager"
    by (induction ops arbitrary: sm) (simp_all add: apply_op_distinct)
  then show ?thesis
    by (simp add: run_ops_def new_SessionManager_def)
qed

lemma set_update_cases:
  "p \<in> set (AList.update k v al) \<Longrightarrow> p = (k, v) \<or> p \<in> set al"
  by (induction al) (auto split: if_splits)

lemma duration_ok_set_status: "duration_ok s \<Longrightarrow> duration_ok (set_status st now s)"
  by (cases "st = ENDED")
     (simp_all add: duration_ok_def set_status_def Let_def del: not_None_eq split: option.splits)

lemma apply_op_duration_ok:
  assumes "\<forall>p \<in> set (sessions sm). duration_ok (snd p)"
  shows "\<forall>p \<in> set (sessions (apply_op x sm)). duration_ok (snd p)"
proof (cases x)
  case (Create cfg uuid now)
  then show ?thesis
    using assms by (auto simp: createSession_def Let_def duration_ok_def dest!: set_update_cases)
next
  case (Transition i st now)
  then show ?thesis
    using assms
    by (auto simp: updateSessionStatus_def getSession_def duration_ok_set_status
             split: option.splits dest!: set_update_cases map_of_SomeD)
next
  case (End i now)
  then show ?thesis
    using assms
    by (auto simp: endSession_def updateSessionStatus_def getSession_def duration_ok_set_status
             split: option.splits dest!: set_update_cases map_of_SomeD)
next
  case (Delete i)
  then show ?thesis
    using assms by (auto simp: deleteSession_def AList.delete_eq)
next
  case (Sweep maxAgeMs now)
  then show ?thesis
    using assms by (auto simp: cleanupOldSessions_def cleanup_loop_filter)
qed

lemma fold_apply_op_duration_ok:
  "\<forall>p \<in> set (sessions sm). duration_ok (snd p) \<Longrightarrow>
   \<forall>p \<in> set (sessions (fold apply_op ops sm)). duration_ok (snd p)"
proof (induction ops arbitrary: sm)
  case Nil
  then show ?case by simp
next
  case (Cons x ops)
  from Cons.prems have "\<forall>p \<in> set (sessions (apply_op x sm)). duration_ok (snd p)"
    by (rule apply_op_duration_ok)
  then show ?case
    by (simp add: Cons.IH)
qed

lemma emitEvent_fields [simp]:
  "conversationHistory (emitEvent e a) = conversationHistory a"
  "arrays (emitEvent e a) = arrays a"
  "next_array (emitEvent e a) = next_array a"
  "sessionManager (emitEvent e a) = sessionManager a"
  "systemPrompt (emitEvent e a) = systemPrompt a"
  "speechProvider (emitEvent e a) = speechProvider a"
  "llmProvider (emitEvent e a) = llmProvider a"
  "emitted (emitEvent e a) = emitted a @ [(''event'', e), (event_type e, e)]"
  by (simp_all add: emitEvent_def)

lemma push_fields [simp]:
  "conversationHistory (push p m a) = conversationHistory a"
  "arrays (push p m a) = (arrays a)(p := arrays a p @ [m])"
  "next_array (push p m a) = next_array a"
  "sessionManager (push p m a) = sessionManager a"
  "systemPrompt (push p m a) = systemPrompt a"
  "speechProvider (push p m a) = speechProvider a"
  "llmProvider (push p m a) = llmProvider a"
  "emitted (push p m a) = emitted a"
  by (simp_all add: push_def)

lemma fold_tool_calls_fields [simp]:
  "conversationHistory (fold (\<lambda>c. emitEvent (ToolCallEvent c)) cs a) = conversationHistory a"
  "arrays (fold (\<lambda>c. emitEvent (ToolCallEvent c)) cs a) = arrays a"
  "emitted (fold (\<lambda>c. emitEvent (ToolCallEvent c)) cs a) =
     emitted a @ concat (map (\<lambda>c. [(''event'', ToolCallEvent c), (''tool:call'', ToolCallEvent c)]) cs)"
  by (induction cs arbitrary: a) simp_all

lemma getConversationHistory_emitEvent [simp]:
  "getConversationHistory i (emitEvent e a) = getConversationHistory i a"
  by (simp add: getConversationHistory_def split: option.splits)

lemma history_or_new_contents:
  "history_or_new i a = (p, a') \<Longrightarrow>
     arrays a' p = getConversationHistory i a \<and> conversationHistory a' = conversationHistory a \<and>
     emitted a' = emitted a \<and> llmProvider a' = llmProvider a \<and> systemPrompt a' = systemPrompt a \<and>
     sessionManager a' = sessionManager a"
  by (auto simp: history_or_new_def new_array_def getConversationHistory_def split: option.splits)


lemma ex_run_ended:
  "getSession ''s1'' (run_ops [Create (ex_config ''s1'') ''uuid'' 0, End ''s1'' 1500]) =
     Some (ex_session ''s1'' ENDED 0 (Some 1500) (Some (3 / 2)))"
  by (simp add: run_ops_def createSession_def endSession_def updateSessionStatus_def getSession_def
      set_status_def new_SessionManager_def ex_config_def ex_session_def Let_def)

text \<open>The example agents, field by field.\<close>

lemma ex_started_fields:
  "sessionManager (ex_started sp ll) = ex_store [ex_session ''s1'' ACTIVE 0 None None]"
  "conversationHistory (ex_started sp ll) = [(''s1'', 0)]"
  "arrays (ex_started sp ll) = (\<lambda>p. [])"
  "next_array (ex_started sp ll) = 1"
  "systemPrompt (ex_started sp ll) = ''Be brief.''"
  "speechProvider (ex_started sp ll) = (\<lambda>audio cfg. sp)"
  "llmProvider (ex_started sp ll) = (\<lambda>request. ll)"
  "emitted (ex_started sp ll) =
     [(''event'', SessionStart (ex_session ''s1'' IDLE 0 None None)),
      (''session:start'', SessionStart (ex_session ''s1'' IDLE 0 None None))]"
  by (simp_all add: ex_started_def ex_agent_def new_VoiceAgent_def new_SessionManager_def
      startSession_def createSession_def new_array_def updateSessionStatus_def getSession_def
      set_status_def emitEvent_def ex_store_def ex_session_def ex_config_def Let_def fun_upd_idem)

lemma ex_ended_fields:
  "sessionManager (ex_ended sp ll) = ex_store [ex_session ''s1'' ENDED 0 (Some 1000) (Some 1)]"
  "conversationHistory (ex_ended sp ll) = []"
  "arrays (ex_ended sp ll) = (\<lambda>p. [])"
  "next_array (ex_ended sp ll) = 1"
  "systemPrompt (ex_ended sp ll) = ''Be brief.''"
  "speechProvider (ex_ended sp ll) = (\<lambda>audio cfg. sp)"
  "llmProvider (ex_ended sp ll) = (\<lambda>request. ll)"
  by (simp_all add: ex_ended_def agent_endSession_def endSession_def ex_started_fields
      updateSessionStatus_def getSession_def set_status_def emitEvent_def ex_store_def
      ex_session_def Let_def)

lemma ex_getSession:
  "getSession ''s1'' (ex_store [ex_session ''s1'' st t0 e d]) = Some (ex_session ''s1'' st t0 e d)"
  by (simp add: getSession_def ex_store_def ex_session_def)

lemma ex_started_history: "getConversationHistory ''s1'' (ex_started sp ll) = []"
  by (simp add: getConversationHistory_def ex_started_fields)

section \<open>The claims\<close>

subsection \<open>Session manager\<close>

text \<open>
  \<^bold>\<open>C1\<close> (as amended). \<open>createSession\<close> has no duplicate check and no failing branch.
  Called with a caller-supplied, non-empty id that is already in the store, it returns a
  new session with that id, status \<open>IDLE\<close> and the current time as start time, and
  stores it under the id in place of the session that was there; the sessions under
  other ids are unchanged.
\<close>

theorem createSession_existing_id:
  assumes "config_id cfg = Some i" and "i \<noteq> []" and "getSession i sm = Some old"
  shows "fst (createSession cfg uuid now sm) =
           \<lparr>session_id = i, status = IDLE, config = cfg, startedAt = now, endedAt = None,
            duration = None,
            metadata = (case config_metadata cfg of Some m \<Rightarrow> m | None \<Rightarrow> [])\<rparr> \<and>
         getSession i (snd (createSession cfg uuid now sm)) =
           Some (fst (createSession cfg uuid now sm)) \<and>
         (\<forall>j. j \<noteq> i \<longrightarrow> getSession j (snd (createSession cfg uuid now sm)) = getSession j sm)"
  using assms by (simp add: createSession_def getSession_def Let_def AList.update_conv')

text \<open>The amended C1 at a store whose session \<open>s1\<close> is active.\<close>

theorem createSession_existing_id_witness:
  "config_id (ex_config ''s1'') = Some ''s1'' \<and> ''s1'' \<noteq> [] \<and>
   getSession ''s1'' (ex_store [ex_session ''s1'' ACTIVE 0 None None]) =
     Some (ex_session ''s1'' ACTIVE 0 None None) \<and>
   fst (createSession (ex_config ''s1'') ''uuid'' 5000 (ex_store [ex_session ''s1'' ACTIVE 0 None None])) =
     ex_session ''s1'' IDLE 5000 None None \<and>
   getSession ''s1''
     (snd (createSession (ex_config ''s1'') ''uuid'' 5000 (ex_store [ex_session ''s1'' ACTIVE 0 None None]))) =
     Some (ex_session ''s1'' IDLE 5000 None None)"
proof -
  have c: "config_id (ex_config ''s1'') = Some ''s1''"
    by (simp add: ex_config_def)
  have n: "''s1'' \<noteq> []"
    by simp
  have g: "getSession ''s1'' (ex_store [ex_session ''s1'' ACTIVE 0 None None]) =
             Some (ex_session ''s1'' ACTIVE 0 None None)"
    by (simp add: getSession_def ex_store_def ex_session_def)
  from createSession_existing_id[OF c n g, of "''uuid''" 5000] c n g show ?thesis
    by (simp add: ex_session_def ex_config_def)
qed

text \<open>
  \<^bold>\<open>C1\<close> as stated fails: with the active session \<open>s1\<close> (started at 0) in the store,
  \<open>createSession({id: 's1'})\<close> at time 5000 returns a session instead of failing, and
  the store then holds an idle session started at 5000 under \<open>s1\<close>.
\<close>

theorem createSession_duplicate_counterexample:
  "fst (createSession (ex_config ''s1'') ''uuid'' 5000 (ex_store [ex_session ''s1'' ACTIVE 0 None None])) =
     ex_session ''s1'' IDLE 5000 None None \<and>
   snd (createSession (ex_config ''s1'') ''uuid'' 5000 (ex_store [ex_session ''s1'' ACTIVE 0 None None])) =
     ex_store [ex_session ''s1'' IDLE 5000 None None] \<and>
   getSession ''s1'' (ex_store [ex_session ''s1'' IDLE 5000 None None]) \<noteq>
     getSession ''s1'' (ex_store [ex_session ''s1'' ACTIVE 0 None None])"
  by (simp add: createSession_def getSession_def ex_store_def ex_session_def ex_config_def Let_def)

text \<open>
  \<^bold>\<open>C2\<close> (as amended). For every existing session, \<open>updateSessionStatus(id, ENDED)\<close>
  succeeds, sets the status to \<open>ENDED\<close>, stamps \<open>endedAt\<close> with the current time
  and sets \<open>duration\<close> to \<open>(endedAt - startedAt) / 1000\<close>, whatever the status
  was before, so also when it was \<open>ENDED\<close> already; nothing else changes.
\<close>

theorem updateSessionStatus_ENDED_stamps:
  assumes "getSession i sm = Some s"
  shows "\<exists>sm'. updateSessionStatus i ENDED now sm = Inr sm' \<and>
           getSession i sm' =
             Some (s\<lparr>status := ENDED, endedAt := Some now,
                     duration := Some (of_int (now - startedAt s) / 1000)\<rparr>) \<and>
           (\<forall>j. j \<noteq> i \<longrightarrow> getSession j sm' = getSession j sm)"
  using assms
  by (simp add: updateSessionStatus_def getSession_def set_status_def Let_def AList.update_conv')

text \<open>The amended C2 at a session that ended at 1000 and is ended again at 5000.\<close>

theorem updateSessionStatus_ENDED_stamps_witness:
  "getSession ''s1'' (ex_store [ex_session ''s1'' ENDED 0 (Some 1000) (Some 1)]) =
     Some (ex_session ''s1'' ENDED 0 (Some 1000) (Some 1)) \<and>
   (\<exists>sm'. updateSessionStatus ''s1'' ENDED 5000
             (ex_store [ex_session ''s1'' ENDED 0 (Some 1000) (Some 1)]) = Inr sm' \<and>
          getSession ''s1'' sm' = Some (ex_session ''s1'' ENDED 0 (Some 5000) (Some 5)))"
proof -
  have g: "getSession ''s1'' (ex_store [ex_session ''s1'' ENDED 0 (Some 1000) (Some 1)]) =
             Some (ex_session ''s1'' ENDED 0 (Some 1000) (Some 1))"
    by (simp add: getSession_def ex_store_def ex_session_def)
  from updateSessionStatus_ENDED_stamps[OF g, of 5000]
  obtain sm' where
    u: "updateSessionStatus ''s1'' ENDED 5000
          (ex_store [ex_session ''s1'' ENDED 0 (Some 1000) (Some 1)]) = Inr sm'"
    and s: "getSession ''s1'' sm' =
          Some ((ex_session ''s1'' ENDED 0 (Some 1000) (Some 1))
                  \<lparr>status := ENDED, endedAt := Some 5000,
                   duration := Some (of_int (5000 - startedAt (ex_session ''s1'' ENDED 0 (Some 1000) (Some 1))) / 1000)\<rparr>)"
    by blast
  from s have "getSession ''s1'' sm' = Some (ex_session ''s1'' ENDED 0 (Some 5000) (Some 5))"
    by (simp add: ex_session_def)
  with u g show ?thesis
    by blast
qed

text \<open>
  \<^bold>\<open>C2\<close> as stated fails: a session started at 0 and ended at 1000 has
  \<open>endedAt = 1000\<close> and \<open>duration = 1\<close>; ending it again at 5000 leaves it with
  \<open>endedAt = 5000\<close> and \<open>duration = 5\<close>.
\<close>

theorem updateSessionStatus_ENDED_again_counterexample:
  "updateSessionStatus ''s1'' ENDED 1000 (ex_store [ex_session ''s1'' ACTIVE 0 None None]) =
     Inr (ex_store [ex_session ''s1'' ENDED 0 (Some 1000) (Some 1)]) \<and>
   updateSessionStatus ''s1'' ENDED 5000 (ex_store [ex_session ''s1'' ENDED 0 (Some 1000) (Some 1)]) =
     Inr (ex_store [ex_session ''s1'' ENDED 0 (Some 5000) (Some 5)]) \<and>
   endedAt (ex_session ''s1'' ENDED 0 (Some 5000) (Some 5)) \<noteq>
     endedAt (ex_session ''s1'' ENDED 0 (Some 1000) (Some 1)) \<and>
   duration (ex_session ''s1'' ENDED 0 (Some 5000) (Some 5)) \<noteq>
     duration (ex_session ''s1'' ENDED 0 (Some 1000) (Some 1))"
  by (simp add: updateSessionStatus_def getSession_def set_status_def ex_store_def ex_session_def
      ex_config_def Let_def)

text \<open>
  \<^bold>\<open>C8\<close> For every store (a \<open>Map\<close>, so with distinct keys), every \<open>maxAgeMs\<close>
  and every clock reading, \<open>cleanupOldSessions\<close> removes exactly the sessions whose
  status is \<open>ENDED\<close> and whose end time lies more than \<open>maxAgeMs\<close> before now,
  leaves every other session as it was, returns the number of sessions removed, and a
  second run with the same arguments returns 0 and changes nothing. (By
  \<open>run_ops_distinct\<close> the keys are distinct in every state the manager reaches.)
\<close>

theorem cleanupOldSessions_exact:
  assumes "distinct (map fst (sessions sm))"
  shows "(\<forall>i. getSession i (snd (cleanupOldSessions maxAgeMs now sm)) =
            (case getSession i sm of
               None \<Rightarrow> None
             | Some s \<Rightarrow> if expired now maxAgeMs s then None else Some s)) \<and>
         fst (cleanupOldSessions maxAgeMs now sm) =
           card {i. \<exists>s. getSession i sm = Some s \<and> expired now maxAgeMs s} \<and>
         length (sessions (snd (cleanupOldSessions maxAgeMs now sm))) +
           fst (cleanupOldSessions maxAgeMs now sm) = length (sessions sm) \<and>
         cleanupOldSessions maxAgeMs now (snd (cleanupOldSessions maxAgeMs now sm)) =
           (0, snd (cleanupOldSessions maxAgeMs now sm))"
proof -
  let ?P = "\<lambda>q. expired now maxAgeMs (snd q)"
  let ?sm' = "sm\<lparr>sessions := filter (\<lambda>q. \<not> ?P q) (sessions sm)\<rparr>"
  have run: "cleanupOldSessions maxAgeMs now sm = (length (filter ?P (sessions sm)), ?sm')"
    using assms by (rule cleanupOldSessions_filter)
  have d': "distinct (map fst (sessions ?sm'))"
    using assms by (simp add: distinct_map_filter)
  have a: "getSession i ?sm' =
            (case getSession i sm of
               None \<Rightarrow> None
             | Some s \<Rightarrow> if expired now maxAgeMs s then None else Some s)" for i
    using map_of_filter_snd[OF assms, of "\<lambda>s. \<not> expired now maxAgeMs s" i]
    by (simp add: getSession_def split: option.splits)
  have b: "length (filter ?P (sessions sm)) =
            card {i. \<exists>s. getSession i sm = Some s \<and> expired now maxAgeMs s}"
    using card_expired_keys[OF assms, of "expired now maxAgeMs"] by (simp add: getSession_def)
  have c: "length (sessions ?sm') + length (filter ?P (sessions sm)) = length (sessions sm)"
    using sum_length_filter_compl[of ?P "sessions sm"] by simp
  have e: "cleanupOldSessions maxAgeMs now ?sm' = (0, ?sm')"
    using cleanupOldSessions_filter[OF d', of maxAgeMs now] by simp
  show ?thesis
    unfolding run using a b c e by simp
qed

text \<open>
  C8 at three sessions, swept at 10000 with a maximal age of 5000: \<open>s1\<close> ended at
  1000 and is removed; \<open>s2\<close> ended at 5000, is exactly 5000 old and stays; \<open>s3\<close>
  is active.
\<close>

theorem cleanupOldSessions_exact_witness:
  "distinct (map fst (sessions (ex_store
      [ex_session ''s1'' ENDED 0 (Some 1000) (Some 1),
       ex_session ''s2'' ENDED 0 (Some 5000) (Some 5),
       ex_session ''s3'' ACTIVE 0 None None]))) \<and>
   cleanupOldSessions 5000 10000 (ex_store
      [ex_session ''s1'' ENDED 0 (Some 1000) (Some 1),
       ex_session ''s2'' ENDED 0 (Some 5000) (Some 5),
       ex_session ''s3'' ACTIVE 0 None None]) =
     (1, ex_store
      [ex_session ''s2'' ENDED 0 (Some 5000) (Some 5),
       ex_session ''s3'' ACTIVE 0 None None]) \<and>
   card {i. \<exists>s. getSession i (ex_store
      [ex_session ''s1'' ENDED 0 (Some 1000) (Some 1),
       ex_session ''s2'' ENDED 0 (Some 5000) (Some 5),
       ex_session ''s3'' ACTIVE 0 None None]) = Some s \<and> expired 10000 5000 s} = 1 \<and>
   cleanupOldSessions 5000 10000 (ex_store
      [ex_session ''s2'' ENDED 0 (Some 5000) (Some 5),
       ex_session ''s3'' ACTIVE 0 None None]) =
     (0, ex_store
      [ex_session ''s2'' ENDED 0 (Some 5000) (Some 5),
       ex_session ''s3'' ACTIVE 0 None None])"
proof -
  let ?sm = "ex_store
      [ex_session ''s1'' ENDED 0 (Some 1000) (Some 1),
       ex_session ''s2'' ENDED 0 (Some 5000) (Some 5),
       ex_session ''s3'' ACTIVE 0 None None]"
  have d: "distinct (map fst (sessions ?sm))"
    by (simp add: ex_store_def ex_session_def)
  have r: "cleanupOldSessions 5000 10000 ?sm =
     (1, ex_store
      [ex_session ''s2'' ENDED 0 (Some 5000) (Some 5),
       ex_session ''s3'' ACTIVE 0 None None])"
    by (simp add: cleanupOldSessions_def expired_def ex_store_def ex_session_def)
  from cleanupOldSessions_exact[OF d, of 5000 10000] d r show ?thesis
    by simp
qed

text \<open>
  \<^bold>\<open>C9\<close> (as amended). In every state the session manager reaches by its operations,
  a session whose status is \<open>ENDED\<close> has a \<open>duration\<close>, and a \<open>duration\<close>
  that is set comes with an \<open>endedAt\<close> and equals \<open>(endedAt - startedAt) / 1000\<close>.
  (The converse, that only \<open>ENDED\<close> sessions have a duration, does not hold.)
\<close>

theorem duration_invariant:
  "getSession i (run_ops ops) = Some s \<Longrightarrow>
     (status s = ENDED \<longrightarrow> duration s \<noteq> None) \<and>
     (\<forall>d. duration s = Some d \<longrightarrow>
        (\<exists>e. endedAt s = Some e \<and> d = of_int (e - startedAt s) / 1000))"
proof -
  assume g: "getSession i (run_ops ops) = Some s"
  have "\<forall>p \<in> set (sessions (run_ops ops)). duration_ok (snd p)"
    unfolding run_ops_def
    by (rule fold_apply_op_duration_ok) (simp add: new_SessionManager_def)
  moreover from g have "(i, s) \<in> set (sessions (run_ops ops))"
    by (auto simp: getSession_def dest: map_of_SomeD)
  ultimately have "duration_ok s" by auto
  then show ?thesis
    by (auto simp: duration_ok_def split: option.splits)
qed

text \<open>The amended C9 at a session created at 0 and ended at 1500.\<close>

theorem duration_invariant_witness:
  "getSession ''s1'' (run_ops [Create (ex_config ''s1'') ''uuid'' 0, End ''s1'' 1500]) =
     Some (ex_session ''s1'' ENDED 0 (Some 1500) (Some (3 / 2))) \<and>
   status (ex_session ''s1'' ENDED 0 (Some 1500) (Some (3 / 2))) = ENDED \<and>
   duration (ex_session ''s1'' ENDED 0 (Some 1500) (Some (3 / 2))) \<noteq> None \<and>
   (\<exists>e. endedAt (ex_session ''s1'' ENDED 0 (Some 1500) (Some (3 / 2))) = Some e \<and>
        (3 / 2 :: rat) =
          of_int (e - startedAt (ex_session ''s1'' ENDED 0 (Some 1500) (Some (3 / 2)))) / 1000)"
proof -
  let ?s = "ex_session ''s1'' ENDED 0 (Some 1500) (Some (3 / 2))"
  from duration_invariant[OF ex_run_ended]
  have a: "status ?s = ENDED \<longrightarrow> duration ?s \<noteq> None"
    and b: "\<forall>d. duration ?s = Some d \<longrightarrow>
              (\<exists>e. endedAt ?s = Some e \<and> d = of_int (e - startedAt ?s) / 1000)"
    by blast+
  have st: "status ?s = ENDED"
    by (simp add: ex_session_def)
  have du: "duration ?s = Some (3 / 2)"
    by (simp add: ex_session_def)
  from a st have 1: "duration ?s \<noteq> None"
    by blast
  from b du have 2: "\<exists>e. endedAt ?s = Some e \<and> (3 / 2 :: rat) = of_int (e - startedAt ?s) / 1000"
    by blast
  from ex_run_ended st 1 2 show ?thesis
    by blast
qed

text \<open>
  \<^bold>\<open>C9\<close> as stated fails: create \<open>s1\<close> at 0, move it to \<open>ENDED\<close> at 1000 and
  to \<open>ACTIVE\<close> at 2000. The session is then active and still has the duration 1.
\<close>

theorem duration_without_ENDED_counterexample:
  "getSession ''s1''
     (run_ops [Create (ex_config ''s1'') ''uuid'' 0, Transition ''s1'' ENDED 1000,
               Transition ''s1'' ACTIVE 2000]) =
     Some (ex_session ''s1'' ACTIVE 0 (Some 1000) (Some 1)) \<and>
   duration (ex_session ''s1'' ACTIVE 0 (Some 1000) (Some 1)) \<noteq> None \<and>
   status (ex_session ''s1'' ACTIVE 0 (Some 1000) (Some 1)) \<noteq> ENDED"
  by (simp add: run_ops_def createSession_def updateSessionStatus_def getSession_def
      set_status_def new_SessionManager_def ex_config_def ex_session_def Let_def)

subsection \<open>Voice agent\<close>

text \<open>
  \<^bold>\<open>C3\<close> For every session the manager knows and every call of \<open>processAudio\<close> in
  which both backend calls succeed, the call returns the transcript, the completion's
  text as \<open>response\<close> and the completion's \<open>toolCalls\<close>, and the session's history
  is afterwards the earlier history followed by a user message with the transcript's
  text and an assistant message with the completion's text.
\<close>

theorem processAudio_success:
  assumes "getSession sessionId (sessionManager a) = Some session"
    and "speechProvider a audio (config session) = Inr t"
    and "llmProvider a
           (turn_request
              (getConversationHistory sessionId a @
                 [\<lparr>role = RoleUser, content = transcript_text t, name = None, toolCallId = None\<rparr>])
              (systemPrompt a)) = Inr r"
  shows "fst (processAudio sessionId audio now a) =
           Inr \<lparr>transcript = t, response = response_text r, result_toolCalls = toolCalls r\<rparr> \<and>
         getConversationHistory sessionId (snd (processAudio sessionId audio now a)) =
           getConversationHistory sessionId a @
             [\<lparr>role = RoleUser, content = transcript_text t, name = None, toolCallId = None\<rparr>,
              \<lparr>role = RoleAssistant, content = response_text r, name = None, toolCallId = None\<rparr>]"
proof -
  obtain p a3 where h: "history_or_new sessionId (emitEvent (TranscriptFinal t) (emitEvent (audio_event audio now) a)) = (p, a3)"
    by (cases "history_or_new sessionId (emitEvent (TranscriptFinal t) (emitEvent (audio_event audio now) a))")
  from history_or_new_contents[OF h]
  have c: "arrays a3 p = getConversationHistory sessionId a" "llmProvider a3 = llmProvider a"
    "systemPrompt a3 = systemPrompt a"
    by simp_all
  show ?thesis
    using assms h c
    by (simp add: processAudio_def Let_def user_message_def assistant_message_def
        getConversationHistory_def AList.update_conv' split: option.splits)
qed


text \<open>C3 at the agent with the started session \<open>s1\<close>, both providers answering.\<close>

theorem processAudio_success_witness:
  "getSession ''s1'' (sessionManager (ex_started (Inr ex_transcript) (Inr (ex_response None)))) =
     Some (ex_session ''s1'' ACTIVE 0 None None) \<and>
   fst (processAudio ''s1'' [1, 2] 500 (ex_started (Inr ex_transcript) (Inr (ex_response None)))) =
     Inr \<lparr>transcript = ex_transcript, response = ''9-5 Mon-Fri'', result_toolCalls = None\<rparr> \<and>
   getConversationHistory ''s1''
     (snd (processAudio ''s1'' [1, 2] 500 (ex_started (Inr ex_transcript) (Inr (ex_response None))))) =
     [\<lparr>role = RoleUser, content = ''hours?'', name = None, toolCallId = None\<rparr>,
      \<lparr>role = RoleAssistant, content = ''9-5 Mon-Fri'', name = None, toolCallId = None\<rparr>]"
proof -
  let ?a = "ex_started (Inr ex_transcript) (Inr (ex_response None))"
  have g: "getSession ''s1'' (sessionManager ?a) = Some (ex_session ''s1'' ACTIVE 0 None None)"
    by (simp add: ex_started_fields ex_getSession)
  have sp: "speechProvider ?a [1, 2] (config (ex_session ''s1'' ACTIVE 0 None None)) = Inr ex_transcript"
    by (simp add: ex_started_fields)
  have ll: "llmProvider ?a
           (turn_request
              (getConversationHistory ''s1'' ?a @
                 [\<lparr>role = RoleUser, content = transcript_text ex_transcript, name = None,
                   toolCallId = None\<rparr>])
              (systemPrompt ?a)) = Inr (ex_response None)"
    by (simp add: ex_started_fields)
  from processAudio_success[OF g sp ll, of 500] g show ?thesis
    by (simp add: ex_started_history ex_transcript_def ex_response_def)
qed

text \<open>
  \<^bold>\<open>C4\<close> (as amended). For every session that the manager knows and that has a history
  array in \<open>conversationHistory\<close> (it was started and has not been ended since), and
  every call of \<open>processAudio\<close> in which transcription succeeds and the completion
  call fails, the call fails with the completion's cause and the session's history is
  afterwards the earlier history followed by the user message.
\<close>

theorem processAudio_completion_failure:
  assumes "getSession sessionId (sessionManager a) = Some session"
    and "speechProvider a audio (config session) = Inr t"
    and "map_of (conversationHistory a) sessionId = Some p"
    and "llmProvider a
           (turn_request
              (getConversationHistory sessionId a @
                 [\<lparr>role = RoleUser, content = transcript_text t, name = None, toolCallId = None\<rparr>])
              (systemPrompt a)) = Inl cause"
  shows "fst (processAudio sessionId audio now a) = Inl (Thrown cause) \<and>
         getConversationHistory sessionId (snd (processAudio sessionId audio now a)) =
           getConversationHistory sessionId a @
             [\<lparr>role = RoleUser, content = transcript_text t, name = None, toolCallId = None\<rparr>]"
  using assms
  by (simp add: processAudio_def Let_def user_message_def history_or_new_def
      getConversationHistory_def)

text \<open>The amended C4 at the agent with the started session \<open>s1\<close>, the completion call failing.\<close>

theorem processAudio_completion_failure_witness:
  "map_of (conversationHistory (ex_started (Inr ex_transcript) (Inl ''llm down''))) ''s1'' = Some 0 \<and>
   fst (processAudio ''s1'' [1, 2] 500 (ex_started (Inr ex_transcript) (Inl ''llm down''))) =
     Inl (Thrown ''llm down'') \<and>
   getConversationHistory ''s1''
     (snd (processAudio ''s1'' [1, 2] 500 (ex_started (Inr ex_transcript) (Inl ''llm down'')))) =
     [\<lparr>role = RoleUser, content = ''hours?'', name = None, toolCallId = None\<rparr>]"
proof -
  let ?a = "ex_started (Inr ex_transcript) (Inl ''llm down'')"
  have g: "getSession ''s1'' (sessionManager ?a) = Some (ex_session ''s1'' ACTIVE 0 None None)"
    by (simp add: ex_started_fields ex_getSession)
  have sp: "speechProvider ?a [1, 2] (config (ex_session ''s1'' ACTIVE 0 None None)) = Inr ex_transcript"
    by (simp add: ex_started_fields)
  have h: "map_of (conversationHistory ?a) ''s1'' = Some 0"
    by (simp add: ex_started_fields)
  have ll: "llmProvider ?a
           (turn_request
              (getConversationHistory ''s1'' ?a @
                 [\<lparr>role = RoleUser, content = transcript_text ex_transcript, name = None,
                   toolCallId = None\<rparr>])
              (systemPrompt ?a)) = Inl ''llm down''"
    by (simp add: ex_started_fields)
  from processAudio_completion_failure[OF g sp h ll, of 500] h show ?thesis
    by (simp add: ex_started_history ex_transcript_def)
qed

text \<open>
  \<^bold>\<open>C4\<close> as stated fails: after \<open>startSession\<close> and \<open>endSession\<close> the manager still
  knows the session \<open>s1\<close> (its status is \<open>ENDED\<close>) and its history array is gone.
  \<open>processAudio\<close> then pushes the user message on a fresh array, the completion call
  fails before \<open>conversationHistory.set\<close>, and the history is empty before and after:
  it has not grown by one message.
\<close>

theorem processAudio_ended_session_counterexample:
  "getSession ''s1'' (sessionManager (ex_ended (Inr ex_transcript) (Inl ''llm down''))) =
     Some (ex_session ''s1'' ENDED 0 (Some 1000) (Some 1)) \<and>
   speechProvider (ex_ended (Inr ex_transcript) (Inl ''llm down'')) [1, 2]
     (config (ex_session ''s1'' ENDED 0 (Some 1000) (Some 1))) = Inr ex_transcript \<and>
   fst (processAudio ''s1'' [1, 2] 2000 (ex_ended (Inr ex_transcript) (Inl ''llm down''))) =
     Inl (Thrown ''llm down'') \<and>
   getConversationHistory ''s1'' (ex_ended (Inr ex_transcript) (Inl ''llm down'')) = [] \<and>
   getConversationHistory ''s1''
     (snd (processAudio ''s1'' [1, 2] 2000 (ex_ended (Inr ex_transcript) (Inl ''llm down'')))) = []"
  by (simp add: processAudio_def history_or_new_def new_array_def getConversationHistory_def
      ex_ended_fields ex_getSession Let_def)


text \<open>
  \<^bold>\<open>C5\<close> For every call of \<open>processAudio\<close> in which both backend calls succeed, the
  call adds to the event log exactly these deliveries, each event first on the channel
  \<open>'event'\<close> and then on the channel of its type: the \<open>audio:input\<close> event with the
  audio and the clock reading, the \<open>transcript:final\<close> event with the transcript, the
  \<open>llm:start\<close> event with the request, the \<open>llm:response\<close> event with the
  completion, and one \<open>tool:call\<close> event per tool call of the completion, in the
  order of the array. The listeners of \<open>onEvent\<close>, those of the channel \<open>'event'\<close>,
  receive exactly this sequence of events, whose types are \<open>audio:input\<close>,
  \<open>transcript:final\<close>, \<open>llm:start\<close>, \<open>llm:response\<close> and then \<open>tool:call\<close> once
  per tool call.
\<close>

theorem processAudio_events:
  assumes "getSession sessionId (sessionManager a) = Some session"
    and "speechProvider a audio (config session) = Inr t"
    and "llmProvider a
           (turn_request
              (getConversationHistory sessionId a @
                 [\<lparr>role = RoleUser, content = transcript_text t, name = None, toolCallId = None\<rparr>])
              (systemPrompt a)) = Inr r"
  shows "emitted (snd (processAudio sessionId audio now a)) =
           emitted a @
           [(''event'',
             AudioInput \<lparr>chunk_data = audio, chunk_timestamp = of_int now, sequenceNumber = None,
                         chunk_isFinal = None\<rparr>),
            (''audio:input'',
             AudioInput \<lparr>chunk_data = audio, chunk_timestamp = of_int now, sequenceNumber = None,
                         chunk_isFinal = None\<rparr>),
            (''event'', TranscriptFinal t),
            (''transcript:final'', TranscriptFinal t),
            (''event'',
             LlmStart
               \<lparr>messages =
                  getConversationHistory sessionId a @
                    [\<lparr>role = RoleUser, content = transcript_text t, name = None,
                      toolCallId = None\<rparr>],
                request_systemPrompt = Some (systemPrompt a), temperature = None,
                maxTokens = None, tools = None, toolChoice = None, stream = Some False\<rparr>),
            (''llm:start'',
             LlmStart
               \<lparr>messages =
                  getConversationHistory sessionId a @
                    [\<lparr>role = RoleUser, content = transcript_text t, name = None,
                      toolCallId = None\<rparr>],
                request_systemPrompt = Some (systemPrompt a), temperature = None,
                maxTokens = None, tools = None, toolChoice = None, stream = Some False\<rparr>),
            (''event'', LlmResponse r),
            (''llm:response'', LlmResponse r)] @
           concat (map (\<lambda>toolCall. [(''event'', ToolCallEvent toolCall),
                                       (''tool:call'', ToolCallEvent toolCall)])
                     (case toolCalls r of None \<Rightarrow> [] | Some calls \<Rightarrow> calls)) \<and>
         map snd (filter (\<lambda>d. fst d = ''event'')
                    (emitted (snd (processAudio sessionId audio now a)))) =
           map snd (filter (\<lambda>d. fst d = ''event'') (emitted a)) @
           [AudioInput \<lparr>chunk_data = audio, chunk_timestamp = of_int now, sequenceNumber = None,
                        chunk_isFinal = None\<rparr>,
            TranscriptFinal t,
            LlmStart
              \<lparr>messages =
                 getConversationHistory sessionId a @
                   [\<lparr>role = RoleUser, content = transcript_text t, name = None,
                     toolCallId = None\<rparr>],
               request_systemPrompt = Some (systemPrompt a), temperature = None,
               maxTokens = None, tools = None, toolChoice = None, stream = Some False\<rparr>,
            LlmResponse r] @
           map ToolCallEvent (case toolCalls r of None \<Rightarrow> [] | Some calls \<Rightarrow> calls) \<and>
         map fst (filter (\<lambda>d. fst d \<noteq> ''event'')
                    (emitted (snd (processAudio sessionId audio now a)))) =
           map fst (filter (\<lambda>d. fst d \<noteq> ''event'') (emitted a)) @
           [''audio:input'', ''transcript:final'', ''llm:start'', ''llm:response''] @
           replicate (length (case toolCalls r of None \<Rightarrow> [] | Some calls \<Rightarrow> calls))
             ''tool:call''"
proof -
  let ?audio = "AudioInput \<lparr>chunk_data = audio, chunk_timestamp = of_int now,
                             sequenceNumber = None, chunk_isFinal = None\<rparr>"
  let ?req = "\<lparr>messages =
                 getConversationHistory sessionId a @
                   [\<lparr>role = RoleUser, content = transcript_text t, name = None,
                     toolCallId = None\<rparr>],
               request_systemPrompt = Some (systemPrompt a), temperature = None,
               maxTokens = None, tools = None, toolChoice = None, stream = Some False\<rparr>"
  let ?calls = "case toolCalls r of None \<Rightarrow> [] | Some calls \<Rightarrow> calls"
  let ?ds = "[(''event'', ?audio), (''audio:input'', ?audio),
              (''event'', TranscriptFinal t), (''transcript:final'', TranscriptFinal t),
              (''event'', LlmStart ?req), (''llm:start'', LlmStart ?req),
              (''event'', LlmResponse r), (''llm:response'', LlmResponse r)] @
             concat (map (\<lambda>toolCall. [(''event'', ToolCallEvent toolCall),
                                         (''tool:call'', ToolCallEvent toolCall)]) ?calls)"
  have ae: "audio_event audio now = ?audio"
    by (simp add: audio_event_def)
  obtain p a3 where h: "history_or_new sessionId (emitEvent (TranscriptFinal t) (emitEvent ?audio a)) = (p, a3)"
    by (cases "history_or_new sessionId (emitEvent (TranscriptFinal t) (emitEvent ?audio a))")
  from history_or_new_contents[OF h]
  have c: "arrays a3 p = getConversationHistory sessionId a" "llmProvider a3 = llmProvider a"
    "systemPrompt a3 = systemPrompt a"
    "emitted a3 = emitted (emitEvent (TranscriptFinal t) (emitEvent ?audio a))"
    by simp_all
  from assms(3) have ll: "llmProvider a ?req = Inr r"
    by (simp add: turn_request_def)
  have log: "emitted (snd (processAudio sessionId audio now a)) = emitted a @ ?ds"
    using assms(1,2) ll h c
    by (simp add: processAudio_def Let_def user_message_def ae turn_request_def
        split: option.splits)
  have tc1: "map snd (filter (\<lambda>d. fst d = ''event'')
               (concat (map (\<lambda>toolCall. [(''event'', ToolCallEvent toolCall),
                                           (''tool:call'', ToolCallEvent toolCall)]) cs))) =
             map ToolCallEvent cs" for cs :: "'a ToolCall list"
    by (induction cs) simp_all
  have tc2: "map fst (filter (\<lambda>d. fst d \<noteq> ''event'')
               (concat (map (\<lambda>toolCall. [(''event'', ToolCallEvent toolCall),
                                           (''tool:call'', ToolCallEvent toolCall)]) cs))) =
             replicate (length cs) ''tool:call''" for cs :: "'a ToolCall list"
    by (induction cs) simp_all
  have g: "map snd (filter (\<lambda>d. fst d = ''event'') (emitted a @ ?ds)) =
             map snd (filter (\<lambda>d. fst d = ''event'') (emitted a)) @
             [?audio, TranscriptFinal t, LlmStart ?req, LlmResponse r] @ map ToolCallEvent ?calls"
    by (simp add: tc1)
  have k: "map fst (filter (\<lambda>d. fst d \<noteq> ''event'') (emitted a @ ?ds)) =
             map fst (filter (\<lambda>d. fst d \<noteq> ''event'') (emitted a)) @
             [''audio:input'', ''transcript:final'', ''llm:start'', ''llm:response''] @
             replicate (length ?calls) ''tool:call''"
    by (simp add: tc2)
  from log g k show ?thesis
    by (simp only:)
qed

text \<open>C5 at the agent with the started session \<open>s1\<close>, the completion asking for two tool calls.\<close>

theorem processAudio_events_witness:
  "getSession ''s1''
     (sessionManager (ex_started (Inr ex_transcript) (Inr (ex_response (Some ex_calls))))) =
     Some (ex_session ''s1'' ACTIVE 0 None None) \<and>
   map snd (filter (\<lambda>d. fst d = ''event'')
     (emitted (snd (processAudio ''s1'' [1, 2] 500
        (ex_started (Inr ex_transcript) (Inr (ex_response (Some ex_calls)))))))) =
     [SessionStart (ex_session ''s1'' IDLE 0 None None),
      AudioInput \<lparr>chunk_data = [1, 2], chunk_timestamp = 500, sequenceNumber = None,
                  chunk_isFinal = None\<rparr>,
      TranscriptFinal ex_transcript,
      LlmStart
        \<lparr>messages = [\<lparr>role = RoleUser, content = ''hours?'', name = None, toolCallId = None\<rparr>],
         request_systemPrompt = Some ''Be brief.'', temperature = None, maxTokens = None,
         tools = None, toolChoice = None, stream = Some False\<rparr>,
      LlmResponse (ex_response (Some ex_calls)),
      ToolCallEvent \<lparr>call_id = ''c1'', call_name = ''lookup'', arguments = []\<rparr>,
      ToolCallEvent \<lparr>call_id = ''c2'', call_name = ''book'', arguments = [(''day'', ''Mon'')]\<rparr>] \<and>
   map fst (filter (\<lambda>d. fst d \<noteq> ''event'')
     (emitted (snd (processAudio ''s1'' [1, 2] 500
        (ex_started (Inr ex_transcript) (Inr (ex_response (Some ex_calls)))))))) =
     [''session:start'', ''audio:input'', ''transcript:final'', ''llm:start'', ''llm:response'',
      ''tool:call'', ''tool:call'']"
proof -
  let ?a = "ex_started (Inr ex_transcript) (Inr (ex_response (Some ex_calls)))"
  have g: "getSession ''s1'' (sessionManager ?a) = Some (ex_session ''s1'' ACTIVE 0 None None)"
    by (simp add: ex_started_fields ex_getSession)
  have sp: "speechProvider ?a [1, 2] (config (ex_session ''s1'' ACTIVE 0 None None)) = Inr ex_transcript"
    by (simp add: ex_started_fields)
  have ll: "llmProvider ?a
           (turn_request
              (getConversationHistory ''s1'' ?a @
                 [\<lparr>role = RoleUser, content = transcript_text ex_transcript, name = None,
                   toolCallId = None\<rparr>])
              (systemPrompt ?a)) = Inr (ex_response (Some ex_calls))"
    by (simp add: ex_started_fields)
  have c: "toolCalls (ex_response (Some ex_calls)) = Some ex_calls"
    "transcript_text ex_transcript = ''hours?''"
    by (simp_all add: ex_response_def ex_transcript_def)
  note e = processAudio_events[OF g sp ll, of 500]
  have 1: "map snd (filter (\<lambda>d. fst d = ''event'')
             (emitted (snd (processAudio ''s1'' [1, 2] 500 ?a)))) =
          [SessionStart (ex_session ''s1'' IDLE 0 None None),
           AudioInput \<lparr>chunk_data = [1, 2], chunk_timestamp = 500, sequenceNumber = None,
                       chunk_isFinal = None\<rparr>,
           TranscriptFinal ex_transcript,
           LlmStart
             \<lparr>messages = [\<lparr>role = RoleUser, content = ''hours?'', name = None,
                            toolCallId = None\<rparr>],
              request_systemPrompt = Some ''Be brief.'', temperature = None, maxTokens = None,
              tools = None, toolChoice = None, stream = Some False\<rparr>,
           LlmResponse (ex_response (Some ex_calls))] @
          map ToolCallEvent ex_calls"
    using e[THEN conjunct2, THEN conjunct1]
    by (simp add: c ex_started_history ex_started_fields)
  have 2: "map fst (filter (\<lambda>d. fst d \<noteq> ''event'')
             (emitted (snd (processAudio ''s1'' [1, 2] 500 ?a)))) =
          [''session:start'', ''audio:input'', ''transcript:final'', ''llm:start'',
           ''llm:response''] @ replicate (length ex_calls) ''tool:call''"
    using e[THEN conjunct2, THEN conjunct2]
    by (simp add: c ex_started_fields)
  from g 1 2 show ?thesis
    by (simp add: ex_calls_def)
qed

text \<open>
  \<^bold>\<open>C6\<close> For every call of \<open>sendToolResult\<close> whose result serializes and whose
  completion call succeeds, the call returns the completion's text, and the history
  under the session id is afterwards the earlier history followed by a tool message
  with the serialized result, the tool's name and the call's id, and an assistant
  message with the completion's text.
\<close>

theorem sendToolResult_success:
  assumes "stringify result = Inr s"
    and "llmProvider a
           (tool_request
              (getConversationHistory sessionId a @
                 [\<lparr>role = RoleTool, content = s, name = Some (call_name toolCall),
                   toolCallId = Some (call_id toolCall)\<rparr>])
              (systemPrompt a)) = Inr r"
  shows "fst (sendToolResult sessionId toolCall result stringify a) = Inr (response_text r) \<and>
         getConversationHistory sessionId (snd (sendToolResult sessionId toolCall result stringify a)) =
           getConversationHistory sessionId a @
             [\<lparr>role = RoleTool, content = s, name = Some (call_name toolCall),
               toolCallId = Some (call_id toolCall)\<rparr>,
              \<lparr>role = RoleAssistant, content = response_text r, name = None, toolCallId = None\<rparr>]"
proof -
  obtain p a1 where h: "history_or_new sessionId a = (p, a1)"
    by (cases "history_or_new sessionId a")
  from history_or_new_contents[OF h]
  have c: "arrays a1 p = getConversationHistory sessionId a" "llmProvider a1 = llmProvider a"
    "systemPrompt a1 = systemPrompt a"
    by simp_all
  show ?thesis
    using assms h c
    by (simp add: sendToolResult_def Let_def tool_message_def assistant_message_def
        getConversationHistory_def AList.update_conv')
qed

text \<open>C6 at the agent with the started session \<open>s1\<close>.\<close>

theorem sendToolResult_success_witness:
  "(\<lambda>v. Inr v) ''42'' = (Inr ''42'' :: string + string) \<and>
   fst (sendToolResult ''s1'' \<lparr>call_id = ''c1'', call_name = ''lookup'', arguments = []\<rparr> ''42''
          (\<lambda>v. Inr v) (ex_started (Inr ex_transcript) (Inr (ex_response None)))) =
     Inr ''9-5 Mon-Fri'' \<and>
   getConversationHistory ''s1''
     (snd (sendToolResult ''s1'' \<lparr>call_id = ''c1'', call_name = ''lookup'', arguments = []\<rparr> ''42''
          (\<lambda>v. Inr v) (ex_started (Inr ex_transcript) (Inr (ex_response None))))) =
     [\<lparr>role = RoleTool, content = ''42'', name = Some ''lookup'', toolCallId = Some ''c1''\<rparr>,
      \<lparr>role = RoleAssistant, content = ''9-5 Mon-Fri'', name = None, toolCallId = None\<rparr>]"
proof -
  let ?a = "ex_started (Inr ex_transcript) (Inr (ex_response None))"
  let ?c = "\<lparr>call_id = ''c1'', call_name = ''lookup'', arguments = ([] :: (string \<times> string) list)\<rparr>"
  have st: "(\<lambda>v. Inr v) ''42'' = (Inr ''42'' :: string + string)"
    by simp
  have ll: "llmProvider ?a
           (tool_request
              (getConversationHistory ''s1'' ?a @
                 [\<lparr>role = RoleTool, content = ''42'', name = Some (call_name ?c),
                   toolCallId = Some (call_id ?c)\<rparr>])
              (systemPrompt ?a)) = Inr (ex_response None)"
    by (simp add: ex_started_fields)
  from sendToolResult_success[of "\<lambda>v. Inr v" "''42''" "''42''" ?a "''s1''" ?c "ex_response None", OF st ll]
  show ?thesis
    by (simp add: ex_started_history ex_response_def)
qed

text \<open>
  \<^bold>\<open>C7\<close> For every session the manager knows and every call of \<open>processAudio\<close> in
  which transcription fails, the call fails with the transcription's cause, the only
  change to the agent is the delivery of the \<open>audio:input\<close> event, and every
  history reads as before.
\<close>

theorem processAudio_transcription_failure:
  assumes "getSession sessionId (sessionManager a) = Some session"
    and "speechProvider a audio (config session) = Inl cause"
  shows "processAudio sessionId audio now a =
           (Inl (Thrown cause),
            a\<lparr>emitted := emitted a @
                 [(''event'', audio_event audio now), (''audio:input'', audio_event audio now)]\<rparr>) \<and>
         (\<forall>j. getConversationHistory j (snd (processAudio sessionId audio now a)) =
               getConversationHistory j a)"
  using assms
  by (simp add: processAudio_def Let_def emitEvent_def audio_event_def getConversationHistory_def
      split: option.splits)

text \<open>C7 at the agent with the started session \<open>s1\<close>, the speech provider failing.\<close>

theorem processAudio_transcription_failure_witness:
  "getSession ''s1'' (sessionManager (ex_started (Inl ''speech down'') (Inr (ex_response None)))) =
     Some (ex_session ''s1'' ACTIVE 0 None None) \<and>
   fst (processAudio ''s1'' [1, 2] 500 (ex_started (Inl ''speech down'') (Inr (ex_response None)))) =
     Inl (Thrown ''speech down'') \<and>
   delivered ''event''
     (snd (processAudio ''s1'' [1, 2] 500 (ex_started (Inl ''speech down'') (Inr (ex_response None))))) =
     [SessionStart (ex_session ''s1'' IDLE 0 None None), audio_event [1, 2] 500] \<and>
   getConversationHistory ''s1''
     (snd (processAudio ''s1'' [1, 2] 500 (ex_started (Inl ''speech down'') (Inr (ex_response None))))) =
     []"
proof -
  let ?a = "ex_started (Inl ''speech down'') (Inr (ex_response None))"
  have g: "getSession ''s1'' (sessionManager ?a) = Some (ex_session ''s1'' ACTIVE 0 None None)"
    by (simp add: ex_started_fields ex_getSession)
  have sp: "speechProvider ?a [1, 2] (config (ex_session ''s1'' ACTIVE 0 None None)) = Inl ''speech down''"
    by (simp add: ex_started_fields)
  from processAudio_transcription_failure[OF g sp, of 500]
  have r: "processAudio ''s1'' [1, 2] 500 ?a =
             (Inl (Thrown ''speech down''),
              ?a\<lparr>emitted := emitted ?a @
                   [(''event'', audio_event [1, 2] 500), (''audio:input'', audio_event [1, 2] 500)]\<rparr>)"
    and h: "getConversationHistory ''s1'' (snd (processAudio ''s1'' [1, 2] 500 ?a)) =
             getConversationHistory ''s1'' ?a"
    by blast+
  have 1: "fst (processAudio ''s1'' [1, 2] 500 ?a) = Inl (Thrown ''speech down'')"
    by (simp add: r)
  have 2: "delivered ''event'' (snd (processAudio ''s1'' [1, 2] 500 ?a)) =
             [SessionStart (ex_session ''s1'' IDLE 0 None None), audio_event [1, 2] 500]"
    by (simp add: r delivered_def ex_started_fields)
  have 3: "getConversationHistory ''s1'' (snd (processAudio ''s1'' [1, 2] 500 ?a)) = []"
    by (simp only: h ex_started_history)
  from g 1 2 3 show ?thesis
    by blast
qed

text \<open>
  \<^bold>\<open>C10\<close> \<open>sendToolResult\<close> never fails with a session-not-found error, whatever the
  session id and whether or not the manager knows it. When the id has no history array
  (an unknown id, or a session that was ended) and the call succeeds, the history under
  that id is afterwards exactly the new tool message and the new assistant message.
\<close>

theorem sendToolResult_no_session_check:
  "(\<forall>i. fst (sendToolResult sessionId toolCall result stringify a) \<noteq> Inl (SESSION_NOT_FOUND i) \<and>
        fst (sendToolResult sessionId toolCall result stringify a) \<noteq> Inl (SESSION_ERROR i)) \<and>
   (map_of (conversationHistory a) sessionId = None \<longrightarrow>
    stringify result = Inr s \<longrightarrow>
    llmProvider a
      (tool_request
         [\<lparr>role = RoleTool, content = s, name = Some (call_name toolCall),
           toolCallId = Some (call_id toolCall)\<rparr>]
         (systemPrompt a)) = Inr r \<longrightarrow>
    fst (sendToolResult sessionId toolCall result stringify a) = Inr (response_text r) \<and>
    getConversationHistory sessionId (snd (sendToolResult sessionId toolCall result stringify a)) =
      [\<lparr>role = RoleTool, content = s, name = Some (call_name toolCall),
        toolCallId = Some (call_id toolCall)\<rparr>,
       \<lparr>role = RoleAssistant, content = response_text r, name = None, toolCallId = None\<rparr>])"
proof -
  obtain p a1 where h: "history_or_new sessionId a = (p, a1)"
    by (cases "history_or_new sessionId a")
  have 1: "fst (sendToolResult sessionId toolCall result stringify a) \<noteq> Inl (SESSION_NOT_FOUND i) \<and>
        fst (sendToolResult sessionId toolCall result stringify a) \<noteq> Inl (SESSION_ERROR i)" for i
    using h by (simp add: sendToolResult_def Let_def split: sum.splits)
  have 2: "fst (sendToolResult sessionId toolCall result stringify a) = Inr (response_text r) \<and>
    getConversationHistory sessionId (snd (sendToolResult sessionId toolCall result stringify a)) =
      [\<lparr>role = RoleTool, content = s, name = Some (call_name toolCall),
        toolCallId = Some (call_id toolCall)\<rparr>,
       \<lparr>role = RoleAssistant, content = response_text r, name = None, toolCallId = None\<rparr>]"
    if "map_of (conversationHistory a) sessionId = None" "stringify result = Inr s"
      "llmProvider a
      (tool_request
         [\<lparr>role = RoleTool, content = s, name = Some (call_name toolCall),
           toolCallId = Some (call_id toolCall)\<rparr>]
         (systemPrompt a)) = Inr r"
    using that
    by (simp add: sendToolResult_def Let_def tool_message_def assistant_message_def
        history_or_new_def new_array_def getConversationHistory_def AList.update_conv')
  from 1 2 show ?thesis by blast
qed

text \<open>
  C10 at the agent whose session \<open>s1\<close> was ended, and at an id the agent has never
  seen with the completion call failing.
\<close>

theorem sendToolResult_no_session_check_witness:
  "map_of (conversationHistory (ex_ended (Inr ex_transcript) (Inr (ex_response None)))) ''s1'' = None \<and>
   fst (sendToolResult ''s1'' \<lparr>call_id = ''c1'', call_name = ''lookup'', arguments = []\<rparr> ''42''
          (\<lambda>v. Inr v) (ex_ended (Inr ex_transcript) (Inr (ex_response None)))) =
     Inr ''9-5 Mon-Fri'' \<and>
   getConversationHistory ''s1''
     (snd (sendToolResult ''s1'' \<lparr>call_id = ''c1'', call_name = ''lookup'', arguments = []\<rparr> ''42''
          (\<lambda>v. Inr v) (ex_ended (Inr ex_transcript) (Inr (ex_response None))))) =
     [\<lparr>role = RoleTool, content = ''42'', name = Some ''lookup'', toolCallId = Some ''c1''\<rparr>,
      \<lparr>role = RoleAssistant, content = ''9-5 Mon-Fri'', name = None, toolCallId = None\<rparr>] \<and>
   fst (sendToolResult ''nobody'' \<lparr>call_id = ''c1'', call_name = ''lookup'', arguments = []\<rparr> ''42''
          (\<lambda>v. Inr v) (ex_ended (Inr ex_transcript) (Inl ''llm down''))) \<noteq>
     Inl (SESSION_NOT_FOUND ''nobody'')"
proof -
  let ?a = "ex_ended (Inr ex_transcript) (Inr (ex_response None))"
  let ?c = "\<lparr>call_id = ''c1'', call_name = ''lookup'', arguments = ([] :: (string \<times> string) list)\<rparr>"
  have h: "map_of (conversationHistory ?a) ''s1'' = None"
    by (simp add: ex_ended_fields)
  have st: "(\<lambda>v. Inr v) ''42'' = (Inr ''42'' :: string + string)"
    by simp
  have ll: "llmProvider ?a
           (tool_request
              [\<lparr>role = RoleTool, content = ''42'', name = Some (call_name ?c),
                toolCallId = Some (call_id ?c)\<rparr>]
              (systemPrompt ?a)) = Inr (ex_response None)"
    by (simp add: ex_ended_fields)
  from sendToolResult_no_session_check[of "''s1''" ?c "''42''" "\<lambda>v. Inr v" ?a "''42''" "ex_response None"]
    h st ll
  have 1: "fst (sendToolResult ''s1'' ?c ''42'' (\<lambda>v. Inr v) ?a) = Inr (response_text (ex_response None)) \<and>
    getConversationHistory ''s1'' (snd (sendToolResult ''s1'' ?c ''42'' (\<lambda>v. Inr v) ?a)) =
      [\<lparr>role = RoleTool, content = ''42'', name = Some (call_name ?c),
        toolCallId = Some (call_id ?c)\<rparr>,
       \<lparr>role = RoleAssistant, content = response_text (ex_response None), name = None,
        toolCallId = None\<rparr>]"
    by blast
  from sendToolResult_no_session_check[of "''nobody''" ?c "''42''" "\<lambda>v. Inr v"
      "ex_ended (Inr ex_transcript) (Inl ''llm down'')"]
  have 2: "fst (sendToolResult ''nobody'' ?c ''42'' (\<lambda>v. Inr v)
             (ex_ended (Inr ex_transcript) (Inl ''llm down''))) \<noteq> Inl (SESSION_NOT_FOUND ''nobody'')"
    by blast
  from 1 2 h show ?thesis
    by (simp add: ex_response_def)
qed

end
